theory Spec2Isabelle
  imports Complex_Main
begin

section \<open>Python strings\<close>

text \<open>
  A Python \<open>str\<close> is modelled as a \<^typ>\<open>string\<close>: a list of 8-bit characters, each
  read as one code point in the range U+0000 .. U+00FF, so that \<^const>\<open>length\<close> is
  Python's \<open>len\<close>. On that range \<open>str.isspace\<close>, \<open>str.strip\<close>, \<open>str.lower\<close> and the
  regular expression class \<open>\s\<close> are the functions below.

  A few fixed texts of the source hold a character beyond U+00FF (typographic dashes,
  quotes and arrows in the prompts, emoji in the console banners). Such a character
  is spelled by its UTF-8 bytes, through the named constants of the section on texts.
  Those texts are only handed to the gateway, returned or printed; the source never
  measures, strips or lowers them.
\<close>

definition isspace :: "char \<Rightarrow> bool" where
  "isspace c =
     (let n = (of_char c :: nat)
      in (9 \<le> n \<and> n \<le> 13) \<or> (28 \<le> n \<and> n \<le> 32) \<or> n = 133 \<or> n = 160)"

definition strip :: "string \<Rightarrow> string" where
  "strip s = rev (dropWhile isspace (rev (dropWhile isspace s)))"

definition lower_char :: "char \<Rightarrow> char" where
  "lower_char c =
     (let n = (of_char c :: nat)
      in if (65 \<le> n \<and> n \<le> 90) \<or> (192 \<le> n \<and> n \<le> 222 \<and> n \<noteq> 215)
         then char_of (n + 32) else c)"

definition lower :: "string \<Rightarrow> string" where
  "lower s = map lower_char s"

text \<open>\<open>re.fullmatch(r'[^a-zA-Z0-9\s]+', text)\<close>: one or more characters, none of them an
  ASCII letter, an ASCII digit or white space. The match object is only tested for
  truth, so the model returns a \<^typ>\<open>bool\<close>.\<close>

definition in_class_alnum_space :: "char \<Rightarrow> bool" where
  "in_class_alnum_space c =
     (let n = (of_char c :: nat)
      in (97 \<le> n \<and> n \<le> 122) \<or> (65 \<le> n \<and> n \<le> 90) \<or> (48 \<le> n \<and> n \<le> 57) \<or> isspace c)"

definition fullmatch_no_alnum_space :: "string \<Rightarrow> bool" where
  "fullmatch_no_alnum_space text = (text \<noteq> [] \<and> list_all (\<lambda>c. \<not> in_class_alnum_space c) text)"

section \<open>Hesitation detection (interview_agent.py)\<close>

definition MAX_HESITATION_COUNT :: int where
  "MAX_HESITATION_COUNT = 3"

definition HESITATION_PHRASES :: "string set" where
  \<open>HESITATION_PHRASES =
     {'''', '' '', ''...'', ''.'', ''..'',
      ''uh'', ''uhh'', ''um'', ''umm'', ''hmm'', ''huh'', ''mm'',
      ''idk'', ''i don't know'', ''i dont know'', ''dont know'', ''no idea'',
      ''no'', ''nah'', ''nope'', ''skip'', ''next'', ''none''}\<close>

definition POSITIVE_SHORTS :: "string set" where
  "POSITIVE_SHORTS = {''yes'', ''y'', ''ok'', ''okay'', ''sure'', ''fine'', ''good''}"

definition is_hesitation :: "string option \<Rightarrow> bool" where
  "is_hesitation answer =
     (case answer of
        None \<Rightarrow> True
      | Some a \<Rightarrow>
          (let text = lower (strip a)
           in if text = '''' then True
              else if text \<in> HESITATION_PHRASES then True
              else if length text = 1 \<and> text \<notin> {''y'', ''n''} then True
              else if length text \<le> 2 \<and> text \<notin> POSITIVE_SHORTS then True
              else if length text \<le> 4 \<and> fullmatch_no_alnum_space text then True
              else False))"

section \<open>Texts\<close>

text \<open>Characters beyond U+00FF that occur in the fixed texts, as UTF-8 bytes:
  U+2014, U+2013, U+2019, U+201C, U+201D, U+2192 and U+2705.\<close>

definition EM_DASH :: string where
  "EM_DASH = [CHR 0xE2, CHR 0x80, CHR 0x94]"

definition EN_DASH :: string where
  "EN_DASH = [CHR 0xE2, CHR 0x80, CHR 0x93]"

definition RIGHT_QUOTE :: string where
  "RIGHT_QUOTE = [CHR 0xE2, CHR 0x80, CHR 0x99]"

definition LEFT_DQUOTE :: string where
  "LEFT_DQUOTE = [CHR 0xE2, CHR 0x80, CHR 0x9C]"

definition RIGHT_DQUOTE :: string where
  "RIGHT_DQUOTE = [CHR 0xE2, CHR 0x80, CHR 0x9D]"

definition ARROW :: string where
  "ARROW = [CHR 0xE2, CHR 0x86, CHR 0x92]"

definition CHECK_MARK :: string where
  "CHECK_MARK = [CHR 0xE2, CHR 0x9C, CHR 0x85]"

text \<open>A triple-quoted literal, given by its lines: every line is followed by a newline.
  The literals of the source open with a newline, so their first line is empty.\<close>

definition text_block :: "string list \<Rightarrow> string" where
  "text_block ls = concat (map (\<lambda>l. l @ [CHR 0x0A]) ls)"

text \<open>\<open>repr\<close> of a list of strings, which the f-string of \<open>followup_agent\<close> renders:
  the quote is \<open>"\<close> when the string holds \<open>'\<close> and no \<open>"\<close>; the quote and the
  backslash are escaped, so are tab, newline and carriage return, and every other
  character that is not printable is written \<open>\xhh\<close>.\<close>

definition isprintable :: "char \<Rightarrow> bool" where
  "isprintable c =
     (let n = (of_char c :: nat)
      in (32 \<le> n \<and> n < 127) \<or> (161 \<le> n \<and> n \<noteq> 173))"

definition hex_digit :: "nat \<Rightarrow> char" where
  "hex_digit n = ''0123456789abcdef'' ! (n mod 16)"

definition repr_char :: "char \<Rightarrow> char \<Rightarrow> string" where
  "repr_char quote c =
     (if c = quote \<or> c = CHR 0x5C then [CHR 0x5C, c]
      else if c = CHR 0x09 then [CHR 0x5C, CHR ''t'']
      else if c = CHR 0x0A then [CHR 0x5C, CHR ''n'']
      else if c = CHR 0x0D then [CHR 0x5C, CHR ''r'']
      else if \<not> isprintable c
      then [CHR 0x5C, CHR ''x'', hex_digit (of_char c div 16), hex_digit (of_char c)]
      else [c])"

definition repr_str :: "string \<Rightarrow> string" where
  "repr_str s =
     (let quote = (if CHR 0x27 \<in> set s \<and> CHR 0x22 \<notin> set s then CHR 0x22 else CHR 0x27)
      in [quote] @ concat (map (repr_char quote) s) @ [quote])"

fun join_comma :: "string list \<Rightarrow> string" where
  "join_comma [] = []"
| "join_comma [x] = x"
| "join_comma (x # y # ys) = x @ '', '' @ join_comma (y # ys)"

definition repr_list :: "string list \<Rightarrow> string" where
  "repr_list xs = ''['' @ join_comma (map repr_str xs) @ '']''"

section \<open>State and gateway (interview_agent.py)\<close>

text \<open>An entry of \<open>qa_pairs\<close> is a dict with the keys \<open>question\<close> and \<open>answer\<close>; a
  chat message is a dict with the keys \<open>role\<close> and \<open>content\<close>.\<close>

record qa_pair =
  question :: string
  answer :: string

record message =
  msg_role :: string
  content :: string

record InterviewState =
  role :: string
  max_questions :: int
  main_questions_asked :: int
  qa_pairs :: "qa_pair list"

text \<open>\<open>InterviewState(role=..., max_questions=...)\<close>: the other fields take their
  defaults.\<close>

definition new_InterviewState :: "string \<Rightarrow> int \<Rightarrow> InterviewState" where
  "new_InterviewState r n =
     \<lparr>role = r, max_questions = n, main_questions_asked = 0, qa_pairs = []\<rparr>"

datatype exn = GatewayError string | IndexError | EOFError

text \<open>
  The Groq client is outside the program. It is a parameter of the model: from its own
  state, the messages and the temperature it gives either the content of the first
  choice or the exception the call raises, and its next state. Two calls with the same
  messages may so answer differently, and a result that leaves the gateway state as it
  was for every client has made no call. The model name of the configuration is part of
  the client.
\<close>

type_synonym 'g gateway = "'g \<Rightarrow> message list \<Rightarrow> real \<Rightarrow> (exn + string) \<times> 'g"

definition chat_with_groq ::
  "'g gateway \<Rightarrow> 'g \<Rightarrow> message list \<Rightarrow> real \<Rightarrow> (exn + string) \<times> 'g" where
  "chat_with_groq client g messages temperature =
     (case client g messages temperature of
        (Inl e, g') \<Rightarrow> (Inl e, g')
      | (Inr c, g') \<Rightarrow> (Inr (strip c), g'))"

section \<open>Agents (interview_agent.py)\<close>

definition TIMEOUT_SYSTEM_PROMPT :: "string" where
  \<open>TIMEOUT_SYSTEM_PROMPT = text_block
     ['''',
      ''You are a Silence Recovery Agent.'',
      '''',
      ''You detect when the candidate:'',
      ''- does not answer for a while,'',
      ''- gives an empty or unhelpful answer,'',
      ''- is confused or stuck,'',
      ''- hesitates or goes silent.'',
      '''',
      ''Your job:'',
      ''- Politely re-engage them.'',
      ''- Ask if they need the question repeated.'',
      ''- Offer help like: hints, clarification, or a simpler phrasing.'',
      ''- Keep responses short, friendly, and supportive.'',
      ''- NEVER pressure the candidate.'',
      ''- Example responses:'',
      ''  - "Are you still there? Take your time '' @ EM_DASH @ '' would you like me to repeat the question?"'',
      ''  - "I didn't catch that. Would you like me to repeat or give a hint?"'',
      ''  - "No worries, take a moment. Should I repeat the question?"'',
      ''Return a single short sentence or question suitable to be spoken aloud.'']\<close>

definition timeout_fallback :: string where
  "timeout_fallback =
     ''Are you still there? Take your time '' @ EM_DASH @
     '' would you like me to repeat the question?''"

text \<open>The \<open>messages\<close> of \<open>timeout_agent\<close>, a constant list.\<close>

definition timeout_messages :: "message list" where
  "timeout_messages =
     [\<lparr>msg_role = ''system'', content = TIMEOUT_SYSTEM_PROMPT\<rparr>,
      \<lparr>msg_role = ''user'', content =
         ''The candidate has been silent or unresponsive. Provide a friendly one-line prompt to re-engage them.''\<rparr>]"

definition timeout_agent :: "'g gateway \<Rightarrow> 'g \<Rightarrow> string \<times> 'g" where
  "timeout_agent client g =
     (let messages = timeout_messages
      in case chat_with_groq client g messages 0.7 of
           (Inr reply, g') \<Rightarrow> (reply, g')
         | (Inl e, g') \<Rightarrow> (timeout_fallback, g'))"

definition INTERVIEWER_SYSTEM_PROMPT :: "string \<Rightarrow> string" where
  \<open>INTERVIEWER_SYSTEM_PROMPT r = text_block
     ['''',
      ''You are an Interviewer Agent for the role: '' @ r @ ''.'',
      '''',
      ''INTERVIEW FLOW (STRICT):'',
      '''',
      ''1. FIRST QUESTION '' @ EM_DASH @ '' ALWAYS:'',
      ''   "Can you introduce yourself?"'',
      '''',
      ''   Do NOT use any other opening question.'',
      ''   Do NOT randomize.'',
      ''   This must be the very first question of every interview.'',
      '''',
      ''2. AFTER INTRODUCTION:'',
      ''   Based on the candidate'' @ RIGHT_QUOTE @ ''s introduction, ask relevant follow-up questions about:'',
      ''   - Their skills'',
      ''   - Their education background'',
      ''   - Their experience (internships, projects)'',
      ''   - Technologies they mentioned'',
      ''   - Strengths relevant to the role'',
      '''',
      ''   Ask 1'' @ EN_DASH @ ''3 follow-ups depending on how detailed their introduction is.'',
      ''   Do NOT be repetitive.'',
      '''',
      ''3. MAIN INTERVIEW '' @ EM_DASH @ '' ONLY AFTER INTRODUCTION FOLLOW-UPS:'',
      ''   Transition naturally into deeper questions such as:'',
      ''   - Role-specific technical skills'',
      ''   - Projects related to the role'',
      ''   - System design (if Software Engineer)'',
      ''   - Problem-solving and coding practices'',
      ''   - Behavioral questions (STAR)'',
      ''   - Scenario questions'',
      '''',
      ''4. RULES:'',
      ''   - Ask only ONE question at a time.'',
      ''   - Do NOT repeat any previous question.'',
      ''   - Do NOT paraphrase the same question in different words.'',
      ''   - Do NOT ask introduction again after the first time.'',
      ''   - Keep questions relevant to the candidate'' @ RIGHT_QUOTE @ ''s background.'',
      ''   - Make questions aligned with the role: '' @ r @ ''.'']\<close>

definition interviewer_agent ::
  "'g gateway \<Rightarrow> 'g \<Rightarrow> InterviewState \<Rightarrow> message list \<Rightarrow> (exn + string) \<times> 'g" where
  "interviewer_agent client g state history =
     (let system_prompt = INTERVIEWER_SYSTEM_PROMPT (role state);
          messages = [\<lparr>msg_role = ''system'', content = system_prompt\<rparr>] @ history
      in chat_with_groq client g messages 0.7)"

definition FOLLOWUP_SYSTEM_PROMPT :: "string" where
  \<open>FOLLOWUP_SYSTEM_PROMPT = text_block
     ['''',
      ''You are a Follow-up Agent for a job interview.'',
      '''',
      ''You receive:'',
      ''- The last main question.'',
      ''- The candidate'' @ RIGHT_QUOTE @ ''s answer.'',
      ''- A list of ALL previous questions asked (main + follow-ups).'',
      '''',
      ''Your job:'',
      ''- Decide if a NEW follow-up is needed to probe deeper.'',
      ''- If needed, generate ONE specific follow-up question.'',
      '''',
      ''IMPORTANT RULES:'',
      '''',
      ''1. DEPTH:'',
      ''   - If the answer is incomplete, vague, or off-topic '' @ ARROW @ '' ask a follow-up.'',
      ''   - You may ask multiple follow-ups (1 at a time).'',
      '''',
      ''2. NO REPETITION:'',
      ''   - DO NOT repeat or rephrase any previous question.'',
      ''   - Compare your new question against all previous questions; '',
      ''     if it is similar '' @ ARROW @ '' DO NOT ask it.'',
      ''   - If ANY similar question exists '' @ ARROW @ '' output EXACTLY: NONE'',
      '''',
      ''3. EDGE-CASE HANDLING:'',
      ''   - If the answer is irrelevant or does not address the question, '',
      ''     ask a clarifying follow-up, BUT still follow the no-duplicate rule.'',
      '''',
      ''4. USER REFUSAL:'',
      ''   - If user clearly says: '' @ LEFT_DQUOTE @ ''I don'' @ RIGHT_QUOTE @ ''t know'' @ RIGHT_DQUOTE @ '', '' @ LEFT_DQUOTE @ ''move on'' @ RIGHT_DQUOTE @ '', '' @ LEFT_DQUOTE @ ''skip'' @ RIGHT_DQUOTE @ '', '' @ LEFT_DQUOTE @ ''no experience'' @ RIGHT_DQUOTE @ '', '',
      ''     '' @ LEFT_DQUOTE @ ''next question'' @ RIGHT_DQUOTE @ '', or refuses '' @ ARROW @ '' output EXACTLY: NONE'',
      '''',
      ''5. OUTPUT FORMAT:'',
      ''   - If NO follow-up is needed '' @ ARROW @ '' reply EXACTLY: NONE'',
      ''   - If a follow-up is needed '' @ ARROW @ '' output ONLY the follow-up question'',
      ''     (no explanation, no comments)'']\<close>

definition followup_agent ::
  "'g gateway \<Rightarrow> 'g \<Rightarrow> string \<Rightarrow> string \<Rightarrow> string list \<Rightarrow> (exn + string) \<times> 'g" where
  "followup_agent client g last_question last_answer previous_questions =
     (let user_content =
            [CHR 0x0A] @ ''Main Question: '' @ last_question @
            [CHR 0x0A] @ ''Candidate Answer: '' @ last_answer @
            [CHR 0x0A, CHR 0x0A] @ ''All Previous Questions:'' @
            [CHR 0x0A] @ repr_list previous_questions @
            [CHR 0x0A] @ ''Decide if a follow-up question is needed.'';
          messages =
            [\<lparr>msg_role = ''system'', content = FOLLOWUP_SYSTEM_PROMPT\<rparr>,
             \<lparr>msg_role = ''user'', content = user_content\<rparr>]
      in case chat_with_groq client g messages 0.4 of
           (Inl e, g') \<Rightarrow> (Inl e, g')
         | (Inr reply, g') \<Rightarrow> (Inr (strip reply), g'))"

section \<open>Orchestrator (interview_agent.py)\<close>

text \<open>
  \<open>orchestrator_step\<close> changes \<open>state\<close> and \<open>history\<close> in place, and the caller keeps
  references to both. When an exception leaves the function, the caller's objects hold
  whatever was written before the raise: \<open>Raised\<close> carries them. \<open>Returned\<close> is the
  tuple \<open>(state, history, next_message, is_finished)\<close>. Writing to \<open>qa_pairs[-1]\<close>
  of an empty list raises \<open>IndexError\<close> before anything is changed.
\<close>

datatype outcome =
  Raised exn InterviewState "message list"
| Returned InterviewState "message list" "string option" bool

definition orchestrator_step ::
  "'g gateway \<Rightarrow> 'g \<Rightarrow> InterviewState \<Rightarrow> message list \<Rightarrow> string option \<Rightarrow> outcome \<times> 'g" where
  "orchestrator_step client g state history user_answer =
     (if user_answer = None \<and> main_questions_asked state = 0 then
        (let history1 = history @
               [\<lparr>msg_role = ''user'', content = ''Start the interview and ask the first question.''\<rparr>]
         in case interviewer_agent client g state history1 of
              (Inl e, g') \<Rightarrow> (Raised e state history1, g')
            | (Inr q, g') \<Rightarrow>
                (let history2 = history1 @ [\<lparr>msg_role = ''assistant'', content = q\<rparr>];
                     state1 = state\<lparr>main_questions_asked := main_questions_asked state + 1\<rparr>;
                     state2 = state1\<lparr>qa_pairs := qa_pairs state1 @ [\<lparr>question = q, answer = ''''\<rparr>]\<rparr>
                 in (Returned state2 history2 (Some q) False, g')))
      else case user_answer of
        Some ua \<Rightarrow>
          (if qa_pairs state = [] then (Raised IndexError state history, g)
           else
             (let state1 = state\<lparr>qa_pairs := butlast (qa_pairs state) @ [(last (qa_pairs state))\<lparr>answer := ua\<rparr>]\<rparr>;
                  history1 = history @ [\<lparr>msg_role = ''user'', content = ua\<rparr>];
                  last_q = question (last (qa_pairs state1));
                  all_questions = map question (filter (\<lambda>qa. question qa \<noteq> '''') (qa_pairs state1))
              in case followup_agent client g last_q ua all_questions of
                   (Inl e, g1) \<Rightarrow> (Raised e state1 history1, g1)
                 | (Inr followup, g1) \<Rightarrow>
                     (if followup \<noteq> ''NONE'' then
                        (let history2 = history1 @ [\<lparr>msg_role = ''assistant'', content = followup\<rparr>];
                             state2 = state1\<lparr>qa_pairs := qa_pairs state1 @ [\<lparr>question = followup, answer = ''''\<rparr>]\<rparr>
                         in (Returned state2 history2 (Some followup) False, g1))
                      else if main_questions_asked state1 \<ge> max_questions state1 then
                        (Returned state1 history1 None True, g1)
                      else
                        (case interviewer_agent client g1 state1 history1 of
                           (Inl e, g2) \<Rightarrow> (Raised e state1 history1, g2)
                         | (Inr q, g2) \<Rightarrow>
                             (let history2 = history1 @ [\<lparr>msg_role = ''assistant'', content = q\<rparr>];
                                  state2 = state1\<lparr>main_questions_asked := main_questions_asked state1 + 1\<rparr>;
                                  state3 = state2\<lparr>qa_pairs := qa_pairs state2 @ [\<lparr>question = q, answer = ''''\<rparr>]\<rparr>
                              in (Returned state3 history2 (Some q) False, g2))))))
      | None \<Rightarrow> (Returned state history None True, g))"

section \<open>Console flow (interview_agent.py)\<close>

definition supportive_repeat_text :: "string \<Rightarrow> string" where
  "supportive_repeat_text original_question =
     ''No problem, let me repeat the question so you can answer comfortably:'' @
     [CHR 0x0A] @ original_question"

text \<open>
  The console is a list of the lines the user will type and a log of events. \<open>Input\<close>
  is one \<open>input("You: ")\<close> with the line it read, \<open>Print\<close> one \<open>print\<close> with its
  argument. \<open>input\<close> raises \<open>EOFError\<close> when no line is left.

  \<open>answer_loop\<close> is the inner \<open>while True\<close> loop of \<open>run_console_interview\<close>. It
  leaves by \<open>Exit\<close> (the user asked to stop: \<open>finished = True\<close>) or by \<open>Captured\<close>
  with \<open>captured_answer\<close>. It returns, besides, the history, the gateway state, the
  log and the lines not read yet.
\<close>

datatype console_event = Input string | Print string

datatype loop_exit = Exit | Captured string

fun answer_loop ::
  "'g gateway \<Rightarrow> 'g \<Rightarrow> string option \<Rightarrow> message list \<Rightarrow> int \<Rightarrow> console_event list \<Rightarrow> string list
   \<Rightarrow> (exn + loop_exit) \<times> message list \<times> 'g \<times> console_event list \<times> string list" where
  "answer_loop client g current_question history hesitation_count out [] =
     (Inl EOFError, history, g, out, [])"
| "answer_loop client g current_question history hesitation_count out (user_input # rest) =
     (let out1 = out @ [Input user_input]
      in if lower (strip user_input) \<in> set [''exit'', ''quit'', ''stop''] then
           (Inr Exit, history, g,
            out1 @ [Print ([CHR 0x0A] @ CHECK_MARK @ '' Ending interview early as requested.'' @ [CHR 0x0A])],
            rest)
         else if lower (strip user_input) \<in> POSITIVE_SHORTS then
           (Inr (Captured (strip user_input)), history, g, out1, rest)
         else if is_hesitation (Some user_input) then
           (let hesitation_count1 = hesitation_count + 1
            in if hesitation_count1 = 1 then
                 (case timeout_agent client g of
                    (reengage_msg, g') \<Rightarrow>
                      answer_loop client g' current_question history hesitation_count1
                        (out1 @ [Print ([CHR 0x0A] @ ''Interviewer: '' @ reengage_msg @ [CHR 0x0A])]) rest)
               else if hesitation_count1 = 2 then
                 (let repeat_msg = supportive_repeat_text
                        (case current_question of
                           None \<Rightarrow> ''Can you elaborate?''
                         | Some cq \<Rightarrow> if cq = [] then ''Can you elaborate?'' else cq)
                  in answer_loop client g current_question
                       (history @ [\<lparr>msg_role = ''assistant'', content = repeat_msg\<rparr>]) hesitation_count1
                       (out1 @ [Print ([CHR 0x0A] @ ''Interviewer: '' @ repeat_msg @ [CHR 0x0A])]) rest)
               else
                 (let skip_msg = ''No worries, let's move to the next question.''
                  in (Inr (Captured ''No response / skipped''), history, g,
                      out1 @ [Print ([CHR 0x0A] @ ''Interviewer: '' @ skip_msg @ [CHR 0x0A])], rest)))
         else (Inr (Captured (strip user_input)), history, g, out1, rest))"

text \<open>
  One turn of the outer \<open>while not finished\<close> loop: the hesitation count starts at 0,
  the current question is the last one of \<open>qa_pairs\<close>, the answer loop runs, and a
  captured answer goes to \<open>orchestrator_step\<close>, whose message is printed when it is
  not empty. The result is the new \<open>finished\<close>, or the exception that leaves the loop.
\<close>

definition interview_turn ::
  "'g gateway \<Rightarrow> 'g \<Rightarrow> InterviewState \<Rightarrow> message list \<Rightarrow> console_event list \<Rightarrow> string list
   \<Rightarrow> (exn + bool) \<times> InterviewState \<times> message list \<times> 'g \<times> console_event list \<times> string list" where
  "interview_turn client g state history out inputs =
     (let hesitation_count = 0;
          current_question = (if qa_pairs state \<noteq> [] then Some (question (last (qa_pairs state))) else None)
      in case answer_loop client g current_question history hesitation_count out inputs of
           (Inl e, history1, g1, out1, rest) \<Rightarrow> (Inl e, state, history1, g1, out1, rest)
         | (Inr Exit, history1, g1, out1, rest) \<Rightarrow> (Inr True, state, history1, g1, out1, rest)
         | (Inr (Captured captured_answer), history1, g1, out1, rest) \<Rightarrow>
             (case orchestrator_step client g1 state history1 (Some captured_answer) of
                (Raised e state2 history2, g2) \<Rightarrow> (Inl e, state2, history2, g2, out1, rest)
              | (Returned state2 history2 bot_msg finished, g2) \<Rightarrow>
                  (Inr finished, state2, history2, g2,
                   (case bot_msg of
                      None \<Rightarrow> out1
                    | Some m \<Rightarrow>
                        if m = [] then out1
                        else out1 @ [Print ([CHR 0x0A] @ ''Interviewer: '' @ m @ [CHR 0x0A])]),
                   rest)))"

section \<open>HTTP interface (main.py)\<close>

text \<open>
  \<open>SESSIONS\<close> maps a session id to a dict with the keys \<open>state\<close>, \<open>history\<close> and
  \<open>finished\<close>. The endpoints take the registry and return it as they leave it. An
  exception that no handler catches reaches the framework: \<open>Unhandled\<close>. The id that
  \<open>uuid.uuid4\<close> draws is an argument of \<open>start_interview\<close>; the fields of the request
  bodies are arguments too.
\<close>

record session_data =
  session_state :: InterviewState
  session_history :: "message list"
  session_finished :: bool

record StartResponse =
  session_id :: string
  first_question :: string

record AnswerResponse =
  next_message :: "string option"
  finished :: bool

datatype http_error = HTTPException nat string | Unhandled exn

definition get_session :: "(string \<rightharpoonup> session_data) \<Rightarrow> string \<Rightarrow> http_error + session_data" where
  "get_session SESSIONS sid =
     (case SESSIONS sid of
        None \<Rightarrow> Inl (HTTPException 404 ''Session not found'')
      | Some sd \<Rightarrow> Inr sd)"

definition start_interview ::
  "'g gateway \<Rightarrow> 'g \<Rightarrow> (string \<rightharpoonup> session_data) \<Rightarrow> string \<Rightarrow> string \<Rightarrow> int
   \<Rightarrow> (http_error + StartResponse) \<times> (string \<rightharpoonup> session_data) \<times> 'g" where
  "start_interview client g SESSIONS uuid4 req_role req_max_questions =
     (let state = new_InterviewState req_role req_max_questions;
          history = []
      in case orchestrator_step client g state history None of
           (Raised e state1 history1, g') \<Rightarrow> (Inl (Unhandled e), SESSIONS, g')
         | (Returned state1 history1 bot_msg fin, g') \<Rightarrow>
             (let SESSIONS1 = SESSIONS(uuid4 \<mapsto>
                    \<lparr>session_state = state1, session_history = history1, session_finished = fin\<rparr>)
              in case bot_msg of
                   None \<Rightarrow> (Inl (HTTPException 500 ''Failed to generate first question''), SESSIONS1, g')
                 | Some m \<Rightarrow> (Inr \<lparr>session_id = uuid4, first_question = m\<rparr>, SESSIONS1, g')))"

text \<open>
  The endpoint \<open>answer\<close>. The state and the history it hands to \<open>orchestrator_step\<close>
  are the objects the registry holds, so what the step wrote before an exception stays
  in the registry; the stored \<open>finished\<close> is then not written.
\<close>

definition answer_endpoint ::
  "'g gateway \<Rightarrow> 'g \<Rightarrow> (string \<rightharpoonup> session_data) \<Rightarrow> string \<Rightarrow> string
   \<Rightarrow> (http_error + AnswerResponse) \<times> (string \<rightharpoonup> session_data) \<times> 'g" where
  "answer_endpoint client g SESSIONS req_session_id req_answer =
     (case get_session SESSIONS req_session_id of
        Inl e \<Rightarrow> (Inl e, SESSIONS, g)
      | Inr sd \<Rightarrow>
          if session_finished sd then
            (Inr \<lparr>next_message = None, finished = True\<rparr>, SESSIONS, g)
          else
            (case orchestrator_step client g (session_state sd) (session_history sd) (Some req_answer) of
               (Raised e state1 history1, g') \<Rightarrow>
                 (Inl (Unhandled e),
                  SESSIONS(req_session_id \<mapsto> sd\<lparr>session_state := state1, session_history := history1\<rparr>),
                  g')
             | (Returned state1 history1 bot_msg fin, g') \<Rightarrow>
                 (Inr \<lparr>next_message = bot_msg, finished = fin\<rparr>,
                  SESSIONS(req_session_id \<mapsto>
                    \<lparr>session_state = state1, session_history = history1, session_finished = fin\<rparr>),
                  g')))"

section \<open>Vocabulary of the properties\<close>

text \<open>
  The answer loop treats a line that is no stop word in one of three ways, tested in
  this order: a short affirmative is accepted at once, a hesitation steps the
  hesitation count, anything else is accepted.
\<close>

datatype utterance_class = Hesitant | PositiveShort | Substantive

definition classify :: "string \<Rightarrow> utterance_class" where
  "classify user_input =
     (if lower (strip user_input) \<in> POSITIVE_SHORTS then PositiveShort
      else if is_hesitation (Some user_input) then Hesitant
      else Substantive)"

text \<open>The state and the history an outcome leaves in the caller's hands.\<close>

fun state_of :: "outcome \<Rightarrow> InterviewState" where
  "state_of (Raised e s h) = s"
| "state_of (Returned s h m f) = s"

fun history_of :: "outcome \<Rightarrow> message list" where
  "history_of (Raised e s h) = h"
| "history_of (Returned s h m f) = h"


text \<open>A gateway for concrete runs: it plays a list of replies in order, and raises
  once the list is used up.\<close>

definition scripted_client :: "(exn + string) list gateway" where
  "scripted_client g messages temperature =
     (case g of
        [] \<Rightarrow> (Inl (GatewayError ''unavailable''), [])
      | r # rs \<Rightarrow> (r, rs))"

section \<open>Auxiliary facts\<close>

lemma strip_all_space: "(\<forall>c\<in>set s. isspace c) \<Longrightarrow> strip s = []"
proof -
  assume "\<forall>c\<in>set s. isspace c"
  then have "dropWhile isspace s = []" by simp
  then show ?thesis by (simp add: strip_def del: dropWhile_eq_Nil_conv)
qed

text \<open>A hesitation is neither a stop word nor a short affirmative, so the three tests of
  the answer loop exclude one another.\<close>

lemma is_hesitation_text:
  "is_hesitation (Some a) \<Longrightarrow>
     lower (strip a) \<notin> set [''exit'', ''quit'', ''stop''] \<and> lower (strip a) \<notin> POSITIVE_SHORTS"
  by (auto simp add: is_hesitation_def Let_def HESITATION_PHRASES_def POSITIVE_SHORTS_def
      fullmatch_no_alnum_space_def in_class_alnum_space_def isspace_def)

section \<open>The hesitation classifier\<close>

text \<open>
  Claim C4. The hesitation classifier is a function of its argument alone, defined on
  every string and on the absent input: \<open>is_hesitation\<close> and \<open>classify\<close> are HOL
  functions with no state and no error value, since no operation of the source can
  raise on a string or on \<open>None\<close>. The absent input, the empty string and every string
  of white space only are hesitations; \<open>""\<close> and \<open>"um"\<close> are Hesitant, \<open>"yes"\<close> is
  PositiveShort, and \<open>"I built a caching layer for a payments service"\<close> is Substantive.
\<close>

theorem classifier_total_and_examples:
  "is_hesitation None \<and>
   (\<forall>s. (\<forall>c\<in>set s. isspace c) \<longrightarrow> is_hesitation (Some s) \<and> classify s = Hesitant) \<and>
   is_hesitation (Some '''') \<and> classify '''' = Hesitant \<and>
   is_hesitation (Some ''um'') \<and> classify ''um'' = Hesitant \<and>
   \<not> is_hesitation (Some ''yes'') \<and> classify ''yes'' = PositiveShort \<and>
   \<not> is_hesitation (Some ''I built a caching layer for a payments service'') \<and>
   classify ''I built a caching layer for a payments service'' = Substantive"
proof -
  have none: "is_hesitation None"
    by (simp add: is_hesitation_def)
  have blank: "is_hesitation (Some s) \<and> classify s = Hesitant" if "\<forall>c\<in>set s. isspace c" for s
  proof -
    have "strip s = []" using that by (rule strip_all_space)
    then show ?thesis
      by (simp add: classify_def is_hesitation_def lower_def POSITIVE_SHORTS_def)
  qed
  have um: "is_hesitation (Some ''um'')" by code_simp
  have um': "classify ''um'' = Hesitant" by code_simp
  have yes: "\<not> is_hesitation (Some ''yes'')" by code_simp
  have yes': "classify ''yes'' = PositiveShort" by code_simp
  have long: "\<not> is_hesitation (Some ''I built a caching layer for a payments service'')"
    by code_simp
  have long': "classify ''I built a caching layer for a payments service'' = Substantive"
    by code_simp
  from blank [of "''''"] have empty: "is_hesitation (Some '''') \<and> classify '''' = Hesitant"
    by simp
  from none blank empty um um' yes yes' long long' show ?thesis by blast
qed

text \<open>A blank and a tab: white space only, hence a hesitation.\<close>

theorem classifier_total_and_examples_witness:
  "isspace (CHR '' '') \<and> isspace (CHR 0x09) \<and>
   is_hesitation (Some [CHR '' '', CHR 0x09]) \<and> classify [CHR '' '', CHR 0x09] = Hesitant"
proof -
  have sp: "isspace (CHR '' '')" "isspace (CHR 0x09)" by (simp_all add: isspace_def)
  then have "\<forall>c\<in>set [CHR '' '', CHR 0x09]. isspace c" by simp
  with classifier_total_and_examples show ?thesis using sp by blast
qed

section \<open>The re-engagement prompt\<close>

text \<open>
  Claim C9. When the gateway call of \<open>timeout_agent\<close> raises, \<open>timeout_agent\<close> returns the
  fixed fallback sentence; when the call succeeds, it returns the gateway's text, as
  \<open>chat_with_groq\<close> strips it. Its result is a plain string in both cases: no exception
  of the gateway reaches the caller.
\<close>

theorem timeout_agent_recovers:
  "(client g timeout_messages 0.7 = (Inl e, g') \<longrightarrow>
      timeout_agent client g = (timeout_fallback, g')) \<and>
   (client g timeout_messages 0.7 = (Inr reply, g') \<longrightarrow>
      timeout_agent client g = (strip reply, g'))"
  by (simp add: timeout_agent_def chat_with_groq_def)

theorem timeout_agent_recovers_witness:
  "timeout_agent scripted_client [] = (timeout_fallback, []) \<and>
   timeout_agent scripted_client [Inr '' Still with me? ''] = (''Still with me?'', [])"
proof -
  have a: "scripted_client [] timeout_messages 0.7 = (Inl (GatewayError ''unavailable''), [])"
    by (simp add: scripted_client_def)
  have b: "scripted_client [Inr '' Still with me? ''] timeout_messages 0.7 =
      (Inr '' Still with me? '', [])"
    by (simp add: scripted_client_def)
  have c: "strip '' Still with me? '' = ''Still with me?''"
    by (simp add: strip_def isspace_def)
  from a b c
    timeout_agent_recovers [of scripted_client "[]" "GatewayError ''unavailable''" "[]"]
    timeout_agent_recovers [of scripted_client "[Inr '' Still with me? '']" _ "[]" "'' Still with me? ''"]
  show ?thesis by simp
qed

section \<open>The fail-safe branch of the orchestrator\<close>

text \<open>
  Claim C10. In a state with \<open>main_questions_asked > 0\<close>, \<open>orchestrator_step\<close> with no
  answer takes neither branch and returns \<open>(state, history, None, True)\<close>: no message,
  finished reported, state and history as they were, and the gateway untouched.
\<close>

theorem orchestrator_step_failsafe:
  "0 < main_questions_asked state \<Longrightarrow>
   orchestrator_step client g state history None = (Returned state history None True, g)"
  by (simp add: orchestrator_step_def)

theorem orchestrator_step_failsafe_witness:
  "(0::int) < main_questions_asked
       \<lparr>role = ''SWE'', max_questions = 2, main_questions_asked = 1,
        qa_pairs = [\<lparr>question = ''Q1'', answer = ''''\<rparr>]\<rparr> \<and>
   orchestrator_step scripted_client [Inr ''Q2'']
     \<lparr>role = ''SWE'', max_questions = 2, main_questions_asked = 1,
      qa_pairs = [\<lparr>question = ''Q1'', answer = ''''\<rparr>]\<rparr> [] None =
   (Returned
      \<lparr>role = ''SWE'', max_questions = 2, main_questions_asked = 1,
       qa_pairs = [\<lparr>question = ''Q1'', answer = ''''\<rparr>]\<rparr> [] None True,
    [Inr ''Q2''])"
  using orchestrator_step_failsafe
    [of "\<lparr>role = ''SWE'', max_questions = 2, main_questions_asked = 1,
          qa_pairs = [\<lparr>question = ''Q1'', answer = ''''\<rparr>]\<rparr>"
        scripted_client "[Inr ''Q2'']" "[]"]
  by simp

section \<open>Answers to a finished session\<close>

text \<open>
  Claim C2. For a session whose stored \<open>finished\<close> flag is true, the endpoint \<open>answer\<close>
  responds \<open>(None, True)\<close> with no error and leaves the registry as it was: the state of
  the session (its \<open>qa_pairs\<close> and \<open>main_questions_asked\<close>) and its history are unchanged,
  and the gateway is not called.
\<close>

theorem answer_finished_noop:
  "SESSIONS sid = Some sd \<Longrightarrow> session_finished sd \<Longrightarrow>
   answer_endpoint client g SESSIONS sid a =
     (Inr \<lparr>next_message = None, finished = True\<rparr>, SESSIONS, g)"
  by (simp add: answer_endpoint_def get_session_def)

theorem answer_finished_noop_witness:
  "answer_endpoint scripted_client [Inr ''Q3'']
     [''s1'' \<mapsto> \<lparr>session_state =
          \<lparr>role = ''SWE'', max_questions = 1, main_questions_asked = 1,
           qa_pairs = [\<lparr>question = ''Q1'', answer = ''A1''\<rparr>]\<rparr>,
        session_history = [], session_finished = True\<rparr>]
     ''s1'' ''one more thing'' =
   (Inr \<lparr>next_message = None, finished = True\<rparr>,
    [''s1'' \<mapsto> \<lparr>session_state =
          \<lparr>role = ''SWE'', max_questions = 1, main_questions_asked = 1,
           qa_pairs = [\<lparr>question = ''Q1'', answer = ''A1''\<rparr>]\<rparr>,
        session_history = [], session_finished = True\<rparr>],
    [Inr ''Q3''])"
  using answer_finished_noop
    [of "[''s1'' \<mapsto> \<lparr>session_state =
            \<lparr>role = ''SWE'', max_questions = 1, main_questions_asked = 1,
             qa_pairs = [\<lparr>question = ''Q1'', answer = ''A1''\<rparr>]\<rparr>,
          session_history = [], session_finished = True\<rparr>]"
        "''s1''" _ scripted_client "[Inr ''Q3'']" "''one more thing''"]
  by simp

section \<open>Follow-up or next question\<close>



section \<open>A gateway failure during a step\<close>

text \<open>
  Claim C3, as stated: when a gateway call fails during a step, \<open>qa_pairs\<close>,
  \<open>main_questions_asked\<close> and the history are as before the step. This fails:
  \<open>orchestrator_step\<close> writes the answer into the pending entry and appends it to the
  history before it calls \<open>followup_agent\<close>, and nothing restores them. Here the gateway
  is unavailable while the answer \<open>A1\<close> to \<open>Q1\<close> is processed; the objects of the caller,
  and so the session of the endpoint \<open>answer\<close>, hold the answer afterwards.
\<close>

theorem gateway_failure_all_or_nothing_counterexample:
  "orchestrator_step scripted_client []
     \<lparr>role = ''SWE'', max_questions = 2, main_questions_asked = 1,
      qa_pairs = [\<lparr>question = ''Q1'', answer = ''''\<rparr>]\<rparr>
     [\<lparr>msg_role = ''assistant'', content = ''Q1''\<rparr>] (Some ''A1'') =
   (Raised (GatewayError ''unavailable'')
      \<lparr>role = ''SWE'', max_questions = 2, main_questions_asked = 1,
       qa_pairs = [\<lparr>question = ''Q1'', answer = ''A1''\<rparr>]\<rparr>
      [\<lparr>msg_role = ''assistant'', content = ''Q1''\<rparr>, \<lparr>msg_role = ''user'', content = ''A1''\<rparr>],
    []) \<and>
   [\<lparr>question = ''Q1'', answer = ''A1''\<rparr>] \<noteq> [\<lparr>question = ''Q1'', answer = ''''\<rparr>] \<and>
   [\<lparr>msg_role = ''assistant'', content = ''Q1''\<rparr>, \<lparr>msg_role = ''user'', content = ''A1''\<rparr>] \<noteq>
     [\<lparr>msg_role = ''assistant'', content = ''Q1''\<rparr>] \<and>
   answer_endpoint scripted_client []
     [''s1'' \<mapsto> \<lparr>session_state =
          \<lparr>role = ''SWE'', max_questions = 2, main_questions_asked = 1,
           qa_pairs = [\<lparr>question = ''Q1'', answer = ''''\<rparr>]\<rparr>,
        session_history = [\<lparr>msg_role = ''assistant'', content = ''Q1''\<rparr>],
        session_finished = False\<rparr>]
     ''s1'' ''A1'' =
   (Inl (Unhandled (GatewayError ''unavailable'')),
    [''s1'' \<mapsto> \<lparr>session_state =
          \<lparr>role = ''SWE'', max_questions = 2, main_questions_asked = 1,
           qa_pairs = [\<lparr>question = ''Q1'', answer = ''A1''\<rparr>]\<rparr>,
        session_history =
          [\<lparr>msg_role = ''assistant'', content = ''Q1''\<rparr>, \<lparr>msg_role = ''user'', content = ''A1''\<rparr>],
        session_finished = False\<rparr>],
    [])"
  by (simp add: answer_endpoint_def get_session_def orchestrator_step_def followup_agent_def
      chat_with_groq_def scripted_client_def)

text \<open>
  Claim C3, amended. When a gateway call fails during a step, the exception reaches the
  caller and the step is not undone: \<open>main_questions_asked\<close> is unchanged and no entry
  is added to \<open>qa_pairs\<close>, but what the step wrote before the failing call stays. If
  the call for the first question fails, the start directive has been appended to the
  history. If the follow-up call fails, or the follow-up reply is \<open>NONE\<close> and the call
  for the next main question fails, the answer has been written into the last entry of
  \<open>qa_pairs\<close> and appended to the history as a user turn. No question of the gateway
  has been recorded. Conversely, every step that raises leaves the state and the
  history in one of these forms (or untouched, when \<open>qa_pairs\<close> is empty and the step
  raises \<open>IndexError\<close>).
\<close>

theorem gateway_failure_partial_state:
  "(let history1 = history @
          [\<lparr>msg_role = ''user'', content = ''Start the interview and ask the first question.''\<rparr>]
    in main_questions_asked state = 0 \<and>
       client g ([\<lparr>msg_role = ''system'', content = INTERVIEWER_SYSTEM_PROMPT (role state)\<rparr>] @ history1)
         0.7 = (Inl e, g') \<longrightarrow>
       orchestrator_step client g state history None = (Raised e state history1, g')) \<and>
   (let state1 = state\<lparr>qa_pairs := butlast (qa_pairs state) @ [(last (qa_pairs state))\<lparr>answer := ua\<rparr>]\<rparr>;
        history1 = history @ [\<lparr>msg_role = ''user'', content = ua\<rparr>];
        followup_request =
          [\<lparr>msg_role = ''system'', content = FOLLOWUP_SYSTEM_PROMPT\<rparr>,
           \<lparr>msg_role = ''user'', content =
              [CHR 0x0A] @ ''Main Question: '' @ question (last (qa_pairs state1)) @
              [CHR 0x0A] @ ''Candidate Answer: '' @ ua @
              [CHR 0x0A, CHR 0x0A] @ ''All Previous Questions:'' @
              [CHR 0x0A] @ repr_list (map question (filter (\<lambda>qa. question qa \<noteq> '''') (qa_pairs state1))) @
              [CHR 0x0A] @ ''Decide if a follow-up question is needed.''\<rparr>];
        question_request =
          [\<lparr>msg_role = ''system'', content = INTERVIEWER_SYSTEM_PROMPT (role state1)\<rparr>] @ history1
    in qa_pairs state \<noteq> [] \<longrightarrow>
       (client g followup_request 0.4 = (Inl e, gf) \<longrightarrow>
          orchestrator_step client g state history (Some ua) = (Raised e state1 history1, gf)) \<and>
       (client g followup_request 0.4 = (Inr reply, gf) \<and> strip (strip reply) = ''NONE'' \<and>
        main_questions_asked state < max_questions state \<and>
        client gf question_request 0.7 = (Inl e, gi) \<longrightarrow>
          orchestrator_step client g state history (Some ua) = (Raised e state1 history1, gi))) \<and>
   (orchestrator_step client g state history user_answer = (Raised e s h, g') \<longrightarrow>
      main_questions_asked s = main_questions_asked state \<and>
      length (qa_pairs s) = length (qa_pairs state) \<and>
      (case user_answer of
         None \<Rightarrow>
           s = state \<and>
           h = history @ [\<lparr>msg_role = ''user'',
                            content = ''Start the interview and ask the first question.''\<rparr>]
       | Some a \<Rightarrow>
           if qa_pairs state = [] then e = IndexError \<and> s = state \<and> h = history
           else s = state\<lparr>qa_pairs := butlast (qa_pairs state) @
                             [(last (qa_pairs state))\<lparr>answer := a\<rparr>]\<rparr> \<and>
                h = history @ [\<lparr>msg_role = ''user'', content = a\<rparr>]))"
proof -
  have first: "(let history1 = history @
          [\<lparr>msg_role = ''user'', content = ''Start the interview and ask the first question.''\<rparr>]
    in main_questions_asked state = 0 \<and>
       client g ([\<lparr>msg_role = ''system'', content = INTERVIEWER_SYSTEM_PROMPT (role state)\<rparr>] @ history1)
         0.7 = (Inl e, g') \<longrightarrow>
       orchestrator_step client g state history None = (Raised e state history1, g'))"
    by (simp add: Let_def orchestrator_step_def interviewer_agent_def chat_with_groq_def)
  have answered: "(let state1 = state\<lparr>qa_pairs := butlast (qa_pairs state) @ [(last (qa_pairs state))\<lparr>answer := ua\<rparr>]\<rparr>;
        history1 = history @ [\<lparr>msg_role = ''user'', content = ua\<rparr>];
        followup_request =
          [\<lparr>msg_role = ''system'', content = FOLLOWUP_SYSTEM_PROMPT\<rparr>,
           \<lparr>msg_role = ''user'', content =
              [CHR 0x0A] @ ''Main Question: '' @ question (last (qa_pairs state1)) @
              [CHR 0x0A] @ ''Candidate Answer: '' @ ua @
              [CHR 0x0A, CHR 0x0A] @ ''All Previous Questions:'' @
              [CHR 0x0A] @ repr_list (map question (filter (\<lambda>qa. question qa \<noteq> '''') (qa_pairs state1))) @
              [CHR 0x0A] @ ''Decide if a follow-up question is needed.''\<rparr>];
        question_request =
          [\<lparr>msg_role = ''system'', content = INTERVIEWER_SYSTEM_PROMPT (role state1)\<rparr>] @ history1
    in qa_pairs state \<noteq> [] \<longrightarrow>
       (client g followup_request 0.4 = (Inl e, gf) \<longrightarrow>
          orchestrator_step client g state history (Some ua) = (Raised e state1 history1, gf)) \<and>
       (client g followup_request 0.4 = (Inr reply, gf) \<and> strip (strip reply) = ''NONE'' \<and>
        main_questions_asked state < max_questions state \<and>
        client gf question_request 0.7 = (Inl e, gi) \<longrightarrow>
          orchestrator_step client g state history (Some ua) = (Raised e state1 history1, gi)))"
    by (simp add: Let_def orchestrator_step_def followup_agent_def interviewer_agent_def
        chat_with_groq_def)
  have raised: "main_questions_asked s = main_questions_asked state \<and>
      length (qa_pairs s) = length (qa_pairs state) \<and>
      (case user_answer of
         None \<Rightarrow>
           s = state \<and>
           h = history @ [\<lparr>msg_role = ''user'',
                            content = ''Start the interview and ask the first question.''\<rparr>]
       | Some a \<Rightarrow>
           if qa_pairs state = [] then e = IndexError \<and> s = state \<and> h = history
           else s = state\<lparr>qa_pairs := butlast (qa_pairs state) @
                             [(last (qa_pairs state))\<lparr>answer := a\<rparr>]\<rparr> \<and>
                h = history @ [\<lparr>msg_role = ''user'', content = a\<rparr>])"
    if "orchestrator_step client g state history user_answer = (Raised e s h, g')"
    using that
    by (auto simp add: orchestrator_step_def Let_def
        split: if_splits option.splits prod.splits sum.splits)
  show ?thesis by (rule conjI [OF first conjI [OF answered impI [OF raised]]])
qed

text \<open>The gateway is unavailable for the first question of a new session; it is
  unavailable for the follow-up decision on the answer \<open>A1\<close>; it replies \<open>NONE\<close> and is
  then unavailable for the second main question.\<close>

theorem gateway_failure_partial_state_witness:
  "orchestrator_step scripted_client []
     \<lparr>role = ''SWE'', max_questions = 2, main_questions_asked = 0, qa_pairs = []\<rparr> [] None =
   (Raised (GatewayError ''unavailable'')
      \<lparr>role = ''SWE'', max_questions = 2, main_questions_asked = 0, qa_pairs = []\<rparr>
      [\<lparr>msg_role = ''user'', content = ''Start the interview and ask the first question.''\<rparr>], []) \<and>
   orchestrator_step scripted_client []
     \<lparr>role = ''SWE'', max_questions = 2, main_questions_asked = 1,
      qa_pairs = [\<lparr>question = ''Q1'', answer = ''''\<rparr>]\<rparr> [] (Some ''A1'') =
   (Raised (GatewayError ''unavailable'')
      \<lparr>role = ''SWE'', max_questions = 2, main_questions_asked = 1,
       qa_pairs = [\<lparr>question = ''Q1'', answer = ''A1''\<rparr>]\<rparr>
      [\<lparr>msg_role = ''user'', content = ''A1''\<rparr>], []) \<and>
   orchestrator_step scripted_client [Inr '' NONE '']
     \<lparr>role = ''SWE'', max_questions = 2, main_questions_asked = 1,
      qa_pairs = [\<lparr>question = ''Q1'', answer = ''''\<rparr>]\<rparr> [] (Some ''A1'') =
   (Raised (GatewayError ''unavailable'')
      \<lparr>role = ''SWE'', max_questions = 2, main_questions_asked = 1,
       qa_pairs = [\<lparr>question = ''Q1'', answer = ''A1''\<rparr>]\<rparr>
      [\<lparr>msg_role = ''user'', content = ''A1''\<rparr>], [])"
proof -
  have down: "scripted_client [] ms t = (Inl (GatewayError ''unavailable''), [])" for ms t
    by (simp add: scripted_client_def)
  have none: "scripted_client [Inr '' NONE ''] ms t = (Inr '' NONE '', [])" for ms t
    by (simp add: scripted_client_def)
  have s: "strip (strip '' NONE '') = ''NONE''"
    by (simp add: strip_def isspace_def)
  from gateway_failure_partial_state
    [where client = scripted_client and g = "[]" and history = "[]"
       and e = "GatewayError ''unavailable''" and g' = "[]"
       and state = "\<lparr>role = ''SWE'', max_questions = 2, main_questions_asked = 0, qa_pairs = []\<rparr>",
     THEN conjunct1]
  have first: "orchestrator_step scripted_client []
     \<lparr>role = ''SWE'', max_questions = 2, main_questions_asked = 0, qa_pairs = []\<rparr> [] None =
   (Raised (GatewayError ''unavailable'')
      \<lparr>role = ''SWE'', max_questions = 2, main_questions_asked = 0, qa_pairs = []\<rparr>
      [\<lparr>msg_role = ''user'', content = ''Start the interview and ask the first question.''\<rparr>], [])"
    by (simp add: Let_def down)
  from gateway_failure_partial_state
    [where client = scripted_client and g = "[]" and history = "[]" and ua = "''A1''"
       and e = "GatewayError ''unavailable''" and gf = "[]"
       and state = "\<lparr>role = ''SWE'', max_questions = 2, main_questions_asked = 1,
                     qa_pairs = [\<lparr>question = ''Q1'', answer = ''''\<rparr>]\<rparr>",
     THEN conjunct2, THEN conjunct1]
  have followup: "orchestrator_step scripted_client []
     \<lparr>role = ''SWE'', max_questions = 2, main_questions_asked = 1,
      qa_pairs = [\<lparr>question = ''Q1'', answer = ''''\<rparr>]\<rparr> [] (Some ''A1'') =
   (Raised (GatewayError ''unavailable'')
      \<lparr>role = ''SWE'', max_questions = 2, main_questions_asked = 1,
       qa_pairs = [\<lparr>question = ''Q1'', answer = ''A1''\<rparr>]\<rparr>
      [\<lparr>msg_role = ''user'', content = ''A1''\<rparr>], [])"
    by (simp add: Let_def down)
  from gateway_failure_partial_state
    [where client = scripted_client and g = "[Inr '' NONE '']" and history = "[]" and ua = "''A1''"
       and e = "GatewayError ''unavailable''" and gf = "[]" and gi = "[]" and reply = "'' NONE ''"
       and state = "\<lparr>role = ''SWE'', max_questions = 2, main_questions_asked = 1,
                     qa_pairs = [\<lparr>question = ''Q1'', answer = ''''\<rparr>]\<rparr>",
     THEN conjunct2, THEN conjunct1]
  have question: "orchestrator_step scripted_client [Inr '' NONE '']
     \<lparr>role = ''SWE'', max_questions = 2, main_questions_asked = 1,
      qa_pairs = [\<lparr>question = ''Q1'', answer = ''''\<rparr>]\<rparr> [] (Some ''A1'') =
   (Raised (GatewayError ''unavailable'')
      \<lparr>role = ''SWE'', max_questions = 2, main_questions_asked = 1,
       qa_pairs = [\<lparr>question = ''Q1'', answer = ''A1''\<rparr>]\<rparr>
      [\<lparr>msg_role = ''user'', content = ''A1''\<rparr>], [])"
    by (simp add: Let_def down none s)
  from first followup question show ?thesis by blast
qed

section \<open>The first question\<close>

lemma text_block_line: "l \<in> set ls \<Longrightarrow> \<exists>a b. text_block ls = a @ l @ b"
proof -
  assume "l \<in> set ls"
  then obtain xs ys where "ls = xs @ l # ys" by (auto dest: split_list)
  then have "text_block ls = text_block xs @ l @ ([CHR 0x0A] @ text_block ys)"
    by (simp add: text_block_def)
  then show ?thesis by blast
qed

text \<open>The system prompt of the interviewer quotes the introduction request, whatever
  the role.\<close>

lemma interviewer_prompt_intro:
  "\<exists>a b. INTERVIEWER_SYSTEM_PROMPT r = a @ ''Can you introduce yourself?'' @ b"
proof -
  have "\<exists>a b. INTERVIEWER_SYSTEM_PROMPT r =
      a @ ([CHR '' '', CHR '' '', CHR '' '', CHR 0x22] @ ''Can you introduce yourself?'' @ [CHR 0x22]) @ b"
    unfolding INTERVIEWER_SYSTEM_PROMPT_def by (rule text_block_line) simp
  then obtain a b where "INTERVIEWER_SYSTEM_PROMPT r =
      (a @ [CHR '' '', CHR '' '', CHR '' '', CHR 0x22]) @ ''Can you introduce yourself?'' @ ([CHR 0x22] @ b)"
    by auto
  then show ?thesis by blast
qed

text \<open>
  Claim C7, as stated: the first question of a session is the fixed introduction
  request, verbatim. This fails: the first question is the text the gateway returns,
  and no code compares it with the introduction request. Here the gateway opens with
  another question, and \<open>start\<close> emits it.
\<close>

theorem first_question_fixed_counterexample:
  "start_interview scripted_client [Inr ''Describe a system you designed.''] Map.empty
     ''s1'' ''Backend Engineer'' 3 =
   (Inr \<lparr>session_id = ''s1'', first_question = ''Describe a system you designed.''\<rparr>,
    [''s1'' \<mapsto>
       \<lparr>session_state =
          \<lparr>role = ''Backend Engineer'', max_questions = 3, main_questions_asked = 1,
           qa_pairs = [\<lparr>question = ''Describe a system you designed.'', answer = ''''\<rparr>]\<rparr>,
        session_history =
          [\<lparr>msg_role = ''user'', content = ''Start the interview and ask the first question.''\<rparr>,
           \<lparr>msg_role = ''assistant'', content = ''Describe a system you designed.''\<rparr>],
        session_finished = False\<rparr>],
    []) \<and>
   ''Describe a system you designed.'' \<noteq> ''Can you introduce yourself?''"
  by (simp add: start_interview_def orchestrator_step_def new_InterviewState_def
      interviewer_agent_def chat_with_groq_def scripted_client_def strip_def isspace_def)

text \<open>
  Claim C7, amended. Whatever the role, the first question of a session (the
  \<open>first_question\<close> of \<open>start\<close>, the message of the first \<open>orchestrator_step\<close>) is the
  reply of the gateway, stripped, to the interviewer's system prompt for that role
  followed by the start directive, at temperature 0.7. The system prompt quotes the
  introduction request as the mandatory first question; the first question is that
  request when the gateway replies with it.
\<close>

theorem first_question_is_gateway_reply:
  assumes "client g [\<lparr>msg_role = ''system'', content = INTERVIEWER_SYSTEM_PROMPT r\<rparr>,
                     \<lparr>msg_role = ''user'', content = ''Start the interview and ask the first question.''\<rparr>]
             0.7 = (Inr reply, g')"
  shows "start_interview client g SESSIONS sid r n =
           (Inr \<lparr>session_id = sid, first_question = strip reply\<rparr>,
            SESSIONS(sid \<mapsto>
              \<lparr>session_state = \<lparr>role = r, max_questions = n, main_questions_asked = 1,
                                qa_pairs = [\<lparr>question = strip reply, answer = ''''\<rparr>]\<rparr>,
               session_history =
                 [\<lparr>msg_role = ''user'', content = ''Start the interview and ask the first question.''\<rparr>,
                  \<lparr>msg_role = ''assistant'', content = strip reply\<rparr>],
               session_finished = False\<rparr>),
            g') \<and>
         orchestrator_step client g (new_InterviewState r n) [] None =
           (Returned \<lparr>role = r, max_questions = n, main_questions_asked = 1,
                      qa_pairs = [\<lparr>question = strip reply, answer = ''''\<rparr>]\<rparr>
              [\<lparr>msg_role = ''user'', content = ''Start the interview and ask the first question.''\<rparr>,
               \<lparr>msg_role = ''assistant'', content = strip reply\<rparr>]
              (Some (strip reply)) False, g') \<and>
         (\<exists>a b. INTERVIEWER_SYSTEM_PROMPT r = a @ ''Can you introduce yourself?'' @ b)"
proof -
  have step: "orchestrator_step client g (new_InterviewState r n) [] None =
           (Returned \<lparr>role = r, max_questions = n, main_questions_asked = 1,
                      qa_pairs = [\<lparr>question = strip reply, answer = ''''\<rparr>]\<rparr>
              [\<lparr>msg_role = ''user'', content = ''Start the interview and ask the first question.''\<rparr>,
               \<lparr>msg_role = ''assistant'', content = strip reply\<rparr>]
              (Some (strip reply)) False, g')"
    using assms
    by (simp add: orchestrator_step_def new_InterviewState_def interviewer_agent_def
        chat_with_groq_def)
  then have "start_interview client g SESSIONS sid r n =
           (Inr \<lparr>session_id = sid, first_question = strip reply\<rparr>,
            SESSIONS(sid \<mapsto>
              \<lparr>session_state = \<lparr>role = r, max_questions = n, main_questions_asked = 1,
                                qa_pairs = [\<lparr>question = strip reply, answer = ''''\<rparr>]\<rparr>,
               session_history =
                 [\<lparr>msg_role = ''user'', content = ''Start the interview and ask the first question.''\<rparr>,
                  \<lparr>msg_role = ''assistant'', content = strip reply\<rparr>],
               session_finished = False\<rparr>),
            g')"
    by (simp add: start_interview_def)
  with step interviewer_prompt_intro show ?thesis by blast
qed

text \<open>A gateway that follows its instructions.\<close>

theorem first_question_is_gateway_reply_witness:
  "start_interview scripted_client [Inr '' Can you introduce yourself? ''] Map.empty
     ''s1'' ''Backend Engineer'' 3 =
   (Inr \<lparr>session_id = ''s1'', first_question = ''Can you introduce yourself?''\<rparr>,
    [''s1'' \<mapsto>
       \<lparr>session_state =
          \<lparr>role = ''Backend Engineer'', max_questions = 3, main_questions_asked = 1,
           qa_pairs = [\<lparr>question = ''Can you introduce yourself?'', answer = ''''\<rparr>]\<rparr>,
        session_history =
          [\<lparr>msg_role = ''user'', content = ''Start the interview and ask the first question.''\<rparr>,
           \<lparr>msg_role = ''assistant'', content = ''Can you introduce yourself?''\<rparr>],
        session_finished = False\<rparr>],
    [])"
proof -
  have reply: "scripted_client [Inr '' Can you introduce yourself? ''] ms t =
      (Inr '' Can you introduce yourself? '', [])" for ms t
    by (simp add: scripted_client_def)
  have s: "strip '' Can you introduce yourself? '' = ''Can you introduce yourself?''"
    by (simp add: strip_def isspace_def)
  from first_question_is_gateway_reply
    [where client = scripted_client and g = "[Inr '' Can you introduce yourself? '']"
       and r = "''Backend Engineer''" and SESSIONS = Map.empty and sid = "''s1''" and n = 3,
     OF reply] s
  show ?thesis by simp
qed

section \<open>Hesitation escalation in the answer loop\<close>

text \<open>What one hesitant line does, by the hesitation count so far.\<close>

lemma answer_loop_hesitant:
  assumes "is_hesitation (Some u)"
  shows "answer_loop client g cq history c out (u # rest) =
     (if c + 1 = 1 then
        answer_loop client (snd (timeout_agent client g)) cq history (c + 1)
          (out @ [Input u,
                  Print ([CHR 0x0A] @ ''Interviewer: '' @ fst (timeout_agent client g) @ [CHR 0x0A])]) rest
      else if c + 1 = 2 then
        answer_loop client g cq
          (history @ [\<lparr>msg_role = ''assistant'', content = supportive_repeat_text
             (case cq of None \<Rightarrow> ''Can you elaborate?''
              | Some q \<Rightarrow> if q = [] then ''Can you elaborate?'' else q)\<rparr>])
          (c + 1)
          (out @ [Input u,
                  Print ([CHR 0x0A] @ ''Interviewer: '' @ supportive_repeat_text
                    (case cq of None \<Rightarrow> ''Can you elaborate?''
                     | Some q \<Rightarrow> if q = [] then ''Can you elaborate?'' else q) @ [CHR 0x0A])]) rest
      else
        (Inr (Captured ''No response / skipped''), history, g,
         out @ [Input u,
                Print ([CHR 0x0A] @ ''Interviewer: '' @
                       ''No worries, let's move to the next question.'' @ [CHR 0x0A])],
         rest))"
  using is_hesitation_text [OF assms] assms
  by (simp add: Let_def split: prod.splits)

text \<open>A turn of the outer loop runs the answer loop on the last question of \<open>qa_pairs\<close>
  and hands the captured answer to \<open>orchestrator_step\<close>.\<close>

lemma interview_turn_captured:
  assumes "qa_pairs state \<noteq> []"
    and "answer_loop client g (Some (question (last (qa_pairs state)))) history 0 out inputs =
           (Inr (Captured a), h1, g1, out1, rest)"
  shows "fst (snd (interview_turn client g state history out inputs)) =
           state_of (fst (orchestrator_step client g1 state h1 (Some a))) \<and>
         fst (snd (snd (interview_turn client g state history out inputs))) =
           history_of (fst (orchestrator_step client g1 state h1 (Some a)))"
  using assms
  by (simp add: interview_turn_def split: prod.splits outcome.splits)

text \<open>
  Claim C5, as stated: the second of three consecutive hesitations is answered by a
  supportive repeat that restates the pending question verbatim. This fails for a
  pending question with an empty text, which the orchestrator records when the gateway
  replies with white space only: the loop then repeats \<open>Can you elaborate?\<close> in place
  of the question, and the turn of the outer loop leaves that repeat in the history.
\<close>

theorem supportive_repeat_verbatim_counterexample:
  "orchestrator_step scripted_client [Inr ''  ''] (new_InterviewState ''SWE'' 2) [] None =
     (Returned
        \<lparr>role = ''SWE'', max_questions = 2, main_questions_asked = 1,
         qa_pairs = [\<lparr>question = '''', answer = ''''\<rparr>]\<rparr>
        [\<lparr>msg_role = ''user'', content = ''Start the interview and ask the first question.''\<rparr>,
         \<lparr>msg_role = ''assistant'', content = ''''\<rparr>]
        (Some '''') False, []) \<and>
   is_hesitation (Some '''') \<and> is_hesitation (Some ''um'') \<and> is_hesitation (Some ''...'') \<and>
   answer_loop scripted_client [] (Some '''') [] 0 [] ['''', ''um'', ''...''] =
     (Inr (Captured ''No response / skipped''),
      [\<lparr>msg_role = ''assistant'', content = supportive_repeat_text ''Can you elaborate?''\<rparr>],
      [],
      [Input '''',
       Print ([CHR 0x0A] @ ''Interviewer: '' @ timeout_fallback @ [CHR 0x0A]),
       Input ''um'',
       Print ([CHR 0x0A] @ ''Interviewer: '' @ supportive_repeat_text ''Can you elaborate?'' @ [CHR 0x0A]),
       Input ''...'',
       Print ([CHR 0x0A] @ ''Interviewer: '' @ ''No worries, let's move to the next question.'' @ [CHR 0x0A])],
      []) \<and>
   fst (snd (snd (interview_turn scripted_client []
      \<lparr>role = ''SWE'', max_questions = 2, main_questions_asked = 1,
       qa_pairs = [\<lparr>question = '''', answer = ''''\<rparr>]\<rparr>
      [] [] ['''', ''um'', ''...'']))) =
     [\<lparr>msg_role = ''assistant'', content = supportive_repeat_text ''Can you elaborate?''\<rparr>,
      \<lparr>msg_role = ''user'', content = ''No response / skipped''\<rparr>] \<and>
   supportive_repeat_text ''Can you elaborate?'' \<noteq> supportive_repeat_text ''''"
proof -
  have first: "orchestrator_step scripted_client [Inr ''  ''] (new_InterviewState ''SWE'' 2) [] None =
     (Returned
        \<lparr>role = ''SWE'', max_questions = 2, main_questions_asked = 1,
         qa_pairs = [\<lparr>question = '''', answer = ''''\<rparr>]\<rparr>
        [\<lparr>msg_role = ''user'', content = ''Start the interview and ask the first question.''\<rparr>,
         \<lparr>msg_role = ''assistant'', content = ''''\<rparr>]
        (Some '''') False, [])"
    by (simp add: orchestrator_step_def new_InterviewState_def interviewer_agent_def
        chat_with_groq_def scripted_client_def strip_def isspace_def)
  have h: "is_hesitation (Some '''')" "is_hesitation (Some ''um'')" "is_hesitation (Some ''...'')"
    by (simp_all add: is_hesitation_def lower_def lower_char_def strip_def isspace_def
        HESITATION_PHRASES_def)
  have t: "timeout_agent scripted_client [] = (timeout_fallback, [])"
    by (simp add: timeout_agent_def chat_with_groq_def scripted_client_def)
  have loop: "answer_loop scripted_client [] (Some '''') [] 0 [] ['''', ''um'', ''...''] =
     (Inr (Captured ''No response / skipped''),
      [\<lparr>msg_role = ''assistant'', content = supportive_repeat_text ''Can you elaborate?''\<rparr>],
      [],
      [Input '''',
       Print ([CHR 0x0A] @ ''Interviewer: '' @ timeout_fallback @ [CHR 0x0A]),
       Input ''um'',
       Print ([CHR 0x0A] @ ''Interviewer: '' @ supportive_repeat_text ''Can you elaborate?'' @ [CHR 0x0A]),
       Input ''...'',
       Print ([CHR 0x0A] @ ''Interviewer: '' @ ''No worries, let's move to the next question.'' @ [CHR 0x0A])],
      [])"
    by (simp add: answer_loop_hesitant h t del: answer_loop.simps)
  have turn: "fst (snd (snd (interview_turn scripted_client []
      \<lparr>role = ''SWE'', max_questions = 2, main_questions_asked = 1,
       qa_pairs = [\<lparr>question = '''', answer = ''''\<rparr>]\<rparr>
      [] [] ['''', ''um'', ''...'']))) =
     [\<lparr>msg_role = ''assistant'', content = supportive_repeat_text ''Can you elaborate?''\<rparr>,
      \<lparr>msg_role = ''user'', content = ''No response / skipped''\<rparr>]"
    by (simp add: interview_turn_def loop orchestrator_step_def followup_agent_def
        chat_with_groq_def scripted_client_def del: answer_loop.simps)
  have "supportive_repeat_text ''Can you elaborate?'' \<noteq> supportive_repeat_text ''''"
    by (simp add: supportive_repeat_text_def)
  with first h loop turn show ?thesis by blast
qed

text \<open>
  Claim C5, amended. For every pending question, three consecutive hesitant lines,
  counted from a fresh hesitation count, produce in order: the re-engagement message
  of \<open>timeout_agent\<close>; the supportive repeat, which is the fixed supportive phrase
  followed by the question text verbatim when that text is not empty and by
  \<open>Can you elaborate?\<close> when it is empty, and which is also appended to the history;
  and the end of the loop with \<open>No response / skipped\<close> as the captured answer. After
  the first and after the second hesitant line the loop goes on reading, whatever the
  next lines are; the third always ends it, with exactly three lines read. The turn of
  the outer loop then hands \<open>No response / skipped\<close> to \<open>orchestrator_step\<close> as the answer
  to the pending question, the last one of \<open>qa_pairs\<close>.
\<close>

theorem hesitation_escalation:
  assumes "is_hesitation (Some u1)" and "is_hesitation (Some u2)" and "is_hesitation (Some u3)"
  shows "answer_loop client g (Some q) history 0 out (u1 # rest) =
           answer_loop client (snd (timeout_agent client g)) (Some q) history 1
             (out @ [Input u1,
                     Print ([CHR 0x0A] @ ''Interviewer: '' @ fst (timeout_agent client g) @ [CHR 0x0A])])
             rest \<and>
         answer_loop client g (Some q) history 1 out (u2 # rest) =
           answer_loop client g (Some q)
             (history @ [\<lparr>msg_role = ''assistant'', content =
                 supportive_repeat_text (if q = [] then ''Can you elaborate?'' else q)\<rparr>]) 2
             (out @ [Input u2,
                     Print ([CHR 0x0A] @ ''Interviewer: '' @
                       supportive_repeat_text (if q = [] then ''Can you elaborate?'' else q) @
                       [CHR 0x0A])])
             rest \<and>
         answer_loop client g (Some q) history 2 out (u3 # rest) =
           (Inr (Captured ''No response / skipped''), history, g,
            out @ [Input u3,
                   Print ([CHR 0x0A] @ ''Interviewer: '' @
                          ''No worries, let's move to the next question.'' @ [CHR 0x0A])],
            rest) \<and>
         answer_loop client g (Some q) history 0 out (u1 # u2 # u3 # rest) =
           (Inr (Captured ''No response / skipped''),
            history @ [\<lparr>msg_role = ''assistant'', content =
                supportive_repeat_text (if q = [] then ''Can you elaborate?'' else q)\<rparr>],
            snd (timeout_agent client g),
            out @ [Input u1,
                   Print ([CHR 0x0A] @ ''Interviewer: '' @ fst (timeout_agent client g) @ [CHR 0x0A]),
                   Input u2,
                   Print ([CHR 0x0A] @ ''Interviewer: '' @
                     supportive_repeat_text (if q = [] then ''Can you elaborate?'' else q) @
                     [CHR 0x0A]),
                   Input u3,
                   Print ([CHR 0x0A] @ ''Interviewer: '' @
                          ''No worries, let's move to the next question.'' @ [CHR 0x0A])],
            rest) \<and>
         (qa_pairs state \<noteq> [] \<and> question (last (qa_pairs state)) = q \<longrightarrow>
            fst (snd (interview_turn client g state history out (u1 # u2 # u3 # rest))) =
              state_of (fst (orchestrator_step client (snd (timeout_agent client g)) state
                (history @ [\<lparr>msg_role = ''assistant'', content =
                    supportive_repeat_text (if q = [] then ''Can you elaborate?'' else q)\<rparr>])
                (Some ''No response / skipped''))))"
proof -
  have loop: "answer_loop client g (Some q) history 0 out (u1 # u2 # u3 # rest) =
           (Inr (Captured ''No response / skipped''),
            history @ [\<lparr>msg_role = ''assistant'', content =
                supportive_repeat_text (if q = [] then ''Can you elaborate?'' else q)\<rparr>],
            snd (timeout_agent client g),
            out @ [Input u1,
                   Print ([CHR 0x0A] @ ''Interviewer: '' @ fst (timeout_agent client g) @ [CHR 0x0A]),
                   Input u2,
                   Print ([CHR 0x0A] @ ''Interviewer: '' @
                     supportive_repeat_text (if q = [] then ''Can you elaborate?'' else q) @
                     [CHR 0x0A]),
                   Input u3,
                   Print ([CHR 0x0A] @ ''Interviewer: '' @
                          ''No worries, let's move to the next question.'' @ [CHR 0x0A])],
            rest)"
    by (simp add: answer_loop_hesitant assms del: answer_loop.simps)
  have turn: "fst (snd (interview_turn client g state history out (u1 # u2 # u3 # rest))) =
      state_of (fst (orchestrator_step client (snd (timeout_agent client g)) state
        (history @ [\<lparr>msg_role = ''assistant'', content =
            supportive_repeat_text (if q = [] then ''Can you elaborate?'' else q)\<rparr>])
        (Some ''No response / skipped'')))"
    if "qa_pairs state \<noteq> []" and "question (last (qa_pairs state)) = q"
    using interview_turn_captured [OF that(1), of client g history out "u1 # u2 # u3 # rest"]
      loop that(2)
    by (simp del: answer_loop.simps)
  have stages: "answer_loop client g (Some q) history 0 out (u1 # rest) =
           answer_loop client (snd (timeout_agent client g)) (Some q) history 1
             (out @ [Input u1,
                     Print ([CHR 0x0A] @ ''Interviewer: '' @ fst (timeout_agent client g) @ [CHR 0x0A])])
             rest \<and>
         answer_loop client g (Some q) history 1 out (u2 # rest) =
           answer_loop client g (Some q)
             (history @ [\<lparr>msg_role = ''assistant'', content =
                 supportive_repeat_text (if q = [] then ''Can you elaborate?'' else q)\<rparr>]) 2
             (out @ [Input u2,
                     Print ([CHR 0x0A] @ ''Interviewer: '' @
                       supportive_repeat_text (if q = [] then ''Can you elaborate?'' else q) @
                       [CHR 0x0A])])
             rest \<and>
         answer_loop client g (Some q) history 2 out (u3 # rest) =
           (Inr (Captured ''No response / skipped''), history, g,
            out @ [Input u3,
                   Print ([CHR 0x0A] @ ''Interviewer: '' @
                          ''No worries, let's move to the next question.'' @ [CHR 0x0A])],
            rest)"
    by (simp add: answer_loop_hesitant assms del: answer_loop.simps)
  from stages loop turn show ?thesis by blast
qed

text \<open>The question \<open>Q1\<close> is pending; the user sends an empty line, \<open>um\<close> and \<open>...\<close>, then
  a line the loop does not read.\<close>

theorem hesitation_escalation_witness:
  "is_hesitation (Some '''') \<and> is_hesitation (Some ''um'') \<and> is_hesitation (Some ''...'') \<and>
   answer_loop scripted_client [Inr ''Still there?''] (Some ''Q1'') [] 0 []
     ['''', ''um'', ''...'', ''I would use a queue''] =
     (Inr (Captured ''No response / skipped''),
      [\<lparr>msg_role = ''assistant'', content = supportive_repeat_text ''Q1''\<rparr>],
      [],
      [Input '''',
       Print ([CHR 0x0A] @ ''Interviewer: '' @ ''Still there?'' @ [CHR 0x0A]),
       Input ''um'',
       Print ([CHR 0x0A] @ ''Interviewer: '' @ supportive_repeat_text ''Q1'' @ [CHR 0x0A]),
       Input ''...'',
       Print ([CHR 0x0A] @ ''Interviewer: '' @ ''No worries, let's move to the next question.'' @ [CHR 0x0A])],
      [''I would use a queue'']) \<and>
   fst (snd (interview_turn scripted_client [Inr ''Still there?'', Inr ''NONE'', Inr ''Q2'']
      \<lparr>role = ''SWE'', max_questions = 2, main_questions_asked = 1,
       qa_pairs = [\<lparr>question = ''Q1'', answer = ''''\<rparr>]\<rparr>
      [] [] ['''', ''um'', ''...'', ''I would use a queue''])) =
     \<lparr>role = ''SWE'', max_questions = 2, main_questions_asked = 2,
      qa_pairs = [\<lparr>question = ''Q1'', answer = ''No response / skipped''\<rparr>,
                  \<lparr>question = ''Q2'', answer = ''''\<rparr>]\<rparr>"
proof -
  have h: "is_hesitation (Some '''')" "is_hesitation (Some ''um'')" "is_hesitation (Some ''...'')"
    by (simp_all add: is_hesitation_def lower_def lower_char_def strip_def isspace_def
        HESITATION_PHRASES_def)
  have t: "timeout_agent scripted_client [Inr ''Still there?''] = (''Still there?'', [])"
    by (simp add: timeout_agent_def chat_with_groq_def scripted_client_def strip_def isspace_def)
  have t': "timeout_agent scripted_client [Inr ''Still there?'', Inr ''NONE'', Inr ''Q2''] =
      (''Still there?'', [Inr ''NONE'', Inr ''Q2''])"
    by (simp add: timeout_agent_def chat_with_groq_def scripted_client_def strip_def isspace_def)
  have step: "state_of (fst (orchestrator_step scripted_client [Inr ''NONE'', Inr ''Q2'']
      \<lparr>role = ''SWE'', max_questions = 2, main_questions_asked = 1,
       qa_pairs = [\<lparr>question = ''Q1'', answer = ''''\<rparr>]\<rparr>
      [\<lparr>msg_role = ''assistant'', content = supportive_repeat_text ''Q1''\<rparr>]
      (Some ''No response / skipped''))) =
     \<lparr>role = ''SWE'', max_questions = 2, main_questions_asked = 2,
      qa_pairs = [\<lparr>question = ''Q1'', answer = ''No response / skipped''\<rparr>,
                  \<lparr>question = ''Q2'', answer = ''''\<rparr>]\<rparr>"
    by (simp add: orchestrator_step_def followup_agent_def interviewer_agent_def
        chat_with_groq_def scripted_client_def strip_def isspace_def)
  from hesitation_escalation
    [OF h, where client = scripted_client and g = "[Inr ''Still there?'']" and q = "''Q1''"
       and history = "[]" and out = "[]" and rest = "[''I would use a queue'']"]
    h t
  have loop: "answer_loop scripted_client [Inr ''Still there?''] (Some ''Q1'') [] 0 []
     ['''', ''um'', ''...'', ''I would use a queue''] =
     (Inr (Captured ''No response / skipped''),
      [\<lparr>msg_role = ''assistant'', content = supportive_repeat_text ''Q1''\<rparr>],
      [],
      [Input '''',
       Print ([CHR 0x0A] @ ''Interviewer: '' @ ''Still there?'' @ [CHR 0x0A]),
       Input ''um'',
       Print ([CHR 0x0A] @ ''Interviewer: '' @ supportive_repeat_text ''Q1'' @ [CHR 0x0A]),
       Input ''...'',
       Print ([CHR 0x0A] @ ''Interviewer: '' @ ''No worries, let's move to the next question.'' @ [CHR 0x0A])],
      [''I would use a queue''])"
    by (simp del: answer_loop.simps)
  from hesitation_escalation
    [OF h, where client = scripted_client and g = "[Inr ''Still there?'', Inr ''NONE'', Inr ''Q2'']"
       and q = "''Q1''" and history = "[]" and out = "[]" and rest = "[''I would use a queue'']"
       and state = "\<lparr>role = ''SWE'', max_questions = 2, main_questions_asked = 1,
                     qa_pairs = [\<lparr>question = ''Q1'', answer = ''''\<rparr>]\<rparr>"]
    t' step
  have turn: "fst (snd (interview_turn scripted_client [Inr ''Still there?'', Inr ''NONE'', Inr ''Q2'']
      \<lparr>role = ''SWE'', max_questions = 2, main_questions_asked = 1,
       qa_pairs = [\<lparr>question = ''Q1'', answer = ''''\<rparr>]\<rparr>
      [] [] ['''', ''um'', ''...'', ''I would use a queue''])) =
     \<lparr>role = ''SWE'', max_questions = 2, main_questions_asked = 2,
      qa_pairs = [\<lparr>question = ''Q1'', answer = ''No response / skipped''\<rparr>,
                  \<lparr>question = ''Q2'', answer = ''''\<rparr>]\<rparr>"
    by (simp del: answer_loop.simps)
  from h loop turn show ?thesis by blast
qed

section \<open>The empty answer\<close>







section \<open>The counter of main questions\<close>








end
